theory Spec2Isabelle
  imports Complex_Main
begin

section \<open>Python floats\<close>

text \<open>
  What Python raises is a value of \<open>error\<close>: a float division by zero raises
  \<^verbatim>\<open>ZeroDivisionError\<close>; \<^verbatim>\<open>math.log\<close> of an argument that is not positive,
  \<^verbatim>\<open>round\<close> and \<^verbatim>\<open>int\<close> of a NaN and \<^verbatim>\<open>float\<close> of a malformed text raise
  \<^verbatim>\<open>ValueError\<close>; \<^verbatim>\<open>math.exp\<close> of an argument that is too large, and
  \<^verbatim>\<open>round\<close> and \<^verbatim>\<open>int\<close> of an infinity raise \<^verbatim>\<open>OverflowError\<close>;
  \<^verbatim>\<open>bytes.decode\<close> of an ill-formed sequence raises \<^verbatim>\<open>UnicodeDecodeError\<close>.
\<close>

datatype error = ZeroDivisionError | ValueError | OverflowError | UnicodeDecodeError

text \<open>
  A Python \<^verbatim>\<open>float\<close> is a finite number, an infinity or a NaN. The two zeros are
  the one value \<open>Finite 0\<close>: nothing below tells them apart.
\<close>

datatype pyfloat = Finite real | PInf | NInf | NaN

text \<open>
  Which double an operation returns (the rounding to 53 bits, the overflow to an
  infinity, the underflow to zero, what the C library returns for \<^verbatim>\<open>exp\<close> and
  \<^verbatim>\<open>log\<close>) is a parameter of the model, an \<open>arith\<close>: the value of a literal, the
  four operations (the quotient for a divisor that is not zero), \<^verbatim>\<open>math.exp\<close> with
  its \<^verbatim>\<open>OverflowError\<close>, \<^verbatim>\<open>math.log\<close> on the arguments it accepts, and the
  conversion of an \<^verbatim>\<open>int\<close> in a mixed operation.
\<close>

record arith =
  flit :: "real \<Rightarrow> pyfloat"
  fadd :: "pyfloat \<Rightarrow> pyfloat \<Rightarrow> pyfloat"
  fsub :: "pyfloat \<Rightarrow> pyfloat \<Rightarrow> pyfloat"
  fmul :: "pyfloat \<Rightarrow> pyfloat \<Rightarrow> pyfloat"
  fdiv :: "pyfloat \<Rightarrow> pyfloat \<Rightarrow> pyfloat"
  fexp :: "pyfloat \<Rightarrow> error + pyfloat"
  flog :: "pyfloat \<Rightarrow> pyfloat"
  fint :: "int \<Rightarrow> pyfloat"

text \<open>
  What does not depend on the arithmetic: \<^verbatim>\<open>x / y\<close> raises exactly when \<open>y\<close> is
  zero; \<^verbatim>\<open>math.log\<close> raises on a finite argument that is not positive and on the
  negative infinity, and returns on a positive number, on the positive infinity and
  on a NaN.
\<close>

definition truediv :: "arith \<Rightarrow> pyfloat \<Rightarrow> pyfloat \<Rightarrow> error + pyfloat" where
  "truediv A x y = (if y = Finite 0 then Inl ZeroDivisionError else Inr (fdiv A x y))"

definition math_log :: "arith \<Rightarrow> pyfloat \<Rightarrow> error + pyfloat" where
  "math_log A x =
     (case x of
        Finite r \<Rightarrow> if r \<le> 0 then Inl ValueError else Inr (flog A x)
      | NInf \<Rightarrow> Inl ValueError
      | PInf \<Rightarrow> Inr (flog A x)
      | NaN \<Rightarrow> Inr (flog A x))"

text \<open>
  \<^verbatim>\<open>round(x)\<close> with one argument returns the nearest integer, a tie going to the even
  neighbour; \<^verbatim>\<open>int(x)\<close> drops the fractional part (truncation toward zero). Both
  are exact on the value of the float, and both raise on an infinity and on a NaN.
\<close>

definition py_round :: "real \<Rightarrow> int" where
  "py_round x =
     (let f = \<lfloor>x\<rfloor>; d = x - of_int f
      in if d < 1 / 2 then f
         else if 1 / 2 < d then f + 1
         else if even f then f else f + 1)"

definition py_int :: "real \<Rightarrow> int" where
  "py_int x = (if 0 \<le> x then \<lfloor>x\<rfloor> else \<lceil>x\<rceil>)"

definition round_float :: "pyfloat \<Rightarrow> error + int" where
  "round_float x =
     (case x of
        Finite r \<Rightarrow> Inr (py_round r)
      | PInf \<Rightarrow> Inl OverflowError
      | NInf \<Rightarrow> Inl OverflowError
      | NaN \<Rightarrow> Inl ValueError)"

definition int_float :: "pyfloat \<Rightarrow> error + int" where
  "int_float x =
     (case x of
        Finite r \<Rightarrow> Inr (py_int r)
      | PInf \<Rightarrow> Inl OverflowError
      | NInf \<Rightarrow> Inl OverflowError
      | NaN \<Rightarrow> Inl ValueError)"

text \<open>A statement that raises ends the sequence; the next statement sees the value otherwise.\<close>

definition and_then :: "error + 'a \<Rightarrow> ('a \<Rightarrow> error + 'b) \<Rightarrow> error + 'b" where
  "and_then r f = (case r of Inl err \<Rightarrow> Inl err | Inr v \<Rightarrow> f v)"

section \<open>The psychrometric calculator of xiaomi.py\<close>

record 'a Measurement =
  temperatureC :: 'a
  relHumidity :: 'a
  absHumidity :: 'a
  dewPointC :: 'a
  steamPressure :: 'a
  temperatureF :: 'a
  dewPointF :: 'a

text \<open>
  \<^verbatim>\<open>Measurement.__init__\<close>, lines 15 to 34, statement by statement and in the
  source's order, in the arithmetic \<open>A\<close>.
\<close>

definition Measurement_new :: "arith \<Rightarrow> pyfloat \<Rightarrow> pyfloat \<Rightarrow> error + pyfloat Measurement" where
  "Measurement_new A t h =
     and_then (truediv A (fmul A (flit A 7.45) t) (fadd A (flit A 235) t)) (\<lambda>z1.
     and_then (fexp A (fmul A z1 (flit A 2.3025851))) (\<lambda>x.
     let es = fmul A (flit A 6.1) x in
     and_then (truediv A (fmul A es h) (flit A 100.0)) (\<lambda>e.
     and_then (truediv A e (flit A 6.1)) (\<lambda>z2.
     and_then (truediv A (fmul A (flit A 216.7) e) (fadd A (flit A 273.15) t)) (\<lambda>q.
     and_then (round_float (fmul A q (flit A 10))) (\<lambda>n.
     and_then (truediv A (fint A n) (flit A 10.0)) (\<lambda>ah.
     and_then (math_log A z2) (\<lambda>l.
     let z3 = fmul A (flit A 0.434292289) l in
     and_then (truediv A (fmul A (flit A 235) z3) (fsub A (flit A 7.45) z3)) (\<lambda>d.
     and_then (int_float (fmul A d (flit A 10))) (\<lambda>k.
     and_then (truediv A (fint A k) (flit A 10.0)) (\<lambda>dp.
     and_then (int_float (fmul A e (flit A 10))) (\<lambda>j.
     and_then (truediv A (fint A j) (flit A 10.0)) (\<lambda>sp.
     and_then (truediv A (fmul A t (flit A 9.0)) (flit A 5.0)) (\<lambda>f1.
     and_then (truediv A (fmul A dp (flit A 9.0)) (flit A 5.0)) (\<lambda>f2.
     Inr \<lparr>temperatureC = t, relHumidity = h, absHumidity = ah,
          dewPointC = dp, steamPressure = sp,
          temperatureF = fadd A f1 (flit A 32),
          dewPointF = fadd A f2 (flit A 32)\<rparr>)))))))))))))))"

text \<open>\<^verbatim>\<open>Measurement.to_dict\<close>, lines 50 to 60: the dict literal, in the source's order.\<close>

definition to_dict :: "'a Measurement \<Rightarrow> (string \<times> 'a) list" where
  "to_dict m =
     [(''temperatureC'', temperatureC m),
      (''temperatureF'', temperatureF m),
      (''relHumidity'', relHumidity m),
      (''absHumidity'', absHumidity m),
      (''dewPointC'', dewPointC m),
      (''dewPointF'', dewPointF m),
      (''steamPressure'', steamPressure m)]"

section \<open>The calculator in exact arithmetic\<close>

text \<open>
  The arithmetic without rounding and without a largest or a smallest number: on finite
  floats every operation is the operation on the reals, and an infinity or a NaN is
  handled as IEEE 754 does.
\<close>

fun exact_add :: "pyfloat \<Rightarrow> pyfloat \<Rightarrow> pyfloat" where
  "exact_add (Finite a) (Finite b) = Finite (a + b)"
| "exact_add NaN y = NaN"
| "exact_add x NaN = NaN"
| "exact_add PInf NInf = NaN"
| "exact_add NInf PInf = NaN"
| "exact_add PInf y = PInf"
| "exact_add NInf y = NInf"
| "exact_add x PInf = PInf"
| "exact_add x NInf = NInf"

fun exact_neg :: "pyfloat \<Rightarrow> pyfloat" where
  "exact_neg (Finite a) = Finite (- a)"
| "exact_neg PInf = NInf"
| "exact_neg NInf = PInf"
| "exact_neg NaN = NaN"

definition signed_inf :: "bool \<Rightarrow> pyfloat" where
  "signed_inf positive = (if positive then PInf else NInf)"

fun exact_mul :: "pyfloat \<Rightarrow> pyfloat \<Rightarrow> pyfloat" where
  "exact_mul (Finite a) (Finite b) = Finite (a * b)"
| "exact_mul NaN y = NaN"
| "exact_mul x NaN = NaN"
| "exact_mul (Finite a) PInf = (if a = 0 then NaN else signed_inf (0 < a))"
| "exact_mul (Finite a) NInf = (if a = 0 then NaN else signed_inf (a < 0))"
| "exact_mul PInf (Finite b) = (if b = 0 then NaN else signed_inf (0 < b))"
| "exact_mul NInf (Finite b) = (if b = 0 then NaN else signed_inf (b < 0))"
| "exact_mul PInf PInf = PInf"
| "exact_mul NInf NInf = PInf"
| "exact_mul PInf NInf = NInf"
| "exact_mul NInf PInf = NInf"

text \<open>The quotient is asked for a divisor that is not zero only.\<close>

fun exact_div :: "pyfloat \<Rightarrow> pyfloat \<Rightarrow> pyfloat" where
  "exact_div (Finite a) (Finite b) = Finite (a / b)"
| "exact_div NaN y = NaN"
| "exact_div x NaN = NaN"
| "exact_div (Finite a) PInf = Finite 0"
| "exact_div (Finite a) NInf = Finite 0"
| "exact_div PInf (Finite b) = signed_inf (0 < b)"
| "exact_div NInf (Finite b) = signed_inf (b < 0)"
| "exact_div PInf PInf = NaN"
| "exact_div PInf NInf = NaN"
| "exact_div NInf PInf = NaN"
| "exact_div NInf NInf = NaN"

fun exact_exp :: "pyfloat \<Rightarrow> error + pyfloat" where
  "exact_exp (Finite a) = Inr (Finite (exp a))"
| "exact_exp PInf = Inr PInf"
| "exact_exp NInf = Inr (Finite 0)"
| "exact_exp NaN = Inr NaN"

fun exact_log :: "pyfloat \<Rightarrow> pyfloat" where
  "exact_log (Finite a) = Finite (ln a)"
| "exact_log PInf = PInf"
| "exact_log NInf = NaN"
| "exact_log NaN = NaN"

definition exact_arith :: arith where
  "exact_arith =
     \<lparr>flit = Finite, fadd = exact_add, fsub = (\<lambda>x y. exact_add x (exact_neg y)),
      fmul = exact_mul, fdiv = exact_div, fexp = exact_exp, flog = exact_log,
      fint = (\<lambda>n. Finite (real_of_int n))\<rparr>"

text \<open>
  The constructor read on the reals, for the numeric properties: it is
  \<open>Measurement_new\<close> in exact arithmetic on finite arguments. The rounding error of
  doubles is not represented, nor is their range: the doubles overflow or underflow in
  \<^verbatim>\<open>math.exp\<close> for temperatures within a few degrees of \<open>-235\<close> and underflow for
  humidities below about \<open>1e-321\<close>, and there the code raises where this reading
  returns. The local variables \<open>z1\<close>, \<open>es\<close>, \<open>e\<close>, \<open>z2\<close> and \<open>z3\<close> are functions
  of the two arguments.
\<close>

definition z1_of :: "real \<Rightarrow> real" where
  "z1_of t = (7.45 * t) / (235 + t)"

definition es_of :: "real \<Rightarrow> real" where
  "es_of t = 6.1 * exp (z1_of t * 2.3025851)"

definition e_of :: "real \<Rightarrow> real \<Rightarrow> real" where
  "e_of t h = es_of t * h / 100.0"

definition z2_of :: "real \<Rightarrow> real \<Rightarrow> real" where
  "z2_of t h = e_of t h / 6.1"

definition z3_of :: "real \<Rightarrow> real \<Rightarrow> real" where
  "z3_of t h = 0.434292289 * ln (z2_of t h)"

text \<open>
  The checks stand where the source evaluates the operation that can raise, in the
  source's order: the division of \<open>z1\<close> (line 20), the division inside
  \<open>absHumidity\<close> (line 27), \<^verbatim>\<open>math.log(z2)\<close> (line 29), the division inside
  \<open>dewPointC\<close> (line 30).
\<close>

definition Measurement_init :: "real \<Rightarrow> real \<Rightarrow> error + real Measurement" where
  "Measurement_init t h =
     (if 235 + t = 0 then Inl ZeroDivisionError
      else if 273.15 + t = 0 then Inl ZeroDivisionError
      else if z2_of t h \<le> 0 then Inl ValueError
      else if 7.45 - z3_of t h = 0 then Inl ZeroDivisionError
      else
        let ah = real_of_int (py_round ((216.7 * e_of t h) / (273.15 + t) * 10)) / 10.0;
            dp = real_of_int (py_int ((235 * z3_of t h) / (7.45 - z3_of t h) * 10)) / 10.0;
            sp = real_of_int (py_int (e_of t h * 10)) / 10.0
        in Inr \<lparr>temperatureC = t, relHumidity = h, absHumidity = ah,
                 dewPointC = dp, steamPressure = sp,
                 temperatureF = t * 9.0 / 5.0 + 32,
                 dewPointF = dp * 9.0 / 5.0 + 32\<rparr>)"

text \<open>A record of reals as a record of finite floats.\<close>

definition finite_fields :: "real Measurement \<Rightarrow> pyfloat Measurement" where
  "finite_fields m =
     \<lparr>temperatureC = Finite (temperatureC m), relHumidity = Finite (relHumidity m),
      absHumidity = Finite (absHumidity m), dewPointC = Finite (dewPointC m),
      steamPressure = Finite (steamPressure m), temperatureF = Finite (temperatureF m),
      dewPointF = Finite (dewPointF m)\<rparr>"

section \<open>The notification handler and the wait loop of requestMeasurement\<close>

text \<open>
  A \<^verbatim>\<open>bytearray\<close> is a list of bytes, \<^typ>\<open>string\<close>. \<^verbatim>\<open>bytes.decode()\<close>
  decodes UTF-8 strictly and raises on an ill-formed sequence (a stray continuation
  byte, an overlong form, a surrogate, a code point above U+10FFFF, a truncated
  sequence). The decoded text is kept in its UTF-8 bytes: the pattern and the vendor
  prefix are ASCII, and an ASCII byte never occurs inside a multi-byte sequence.
\<close>

definition cont :: "char \<Rightarrow> bool" where
  "cont c = (0x80 \<le> (of_char c :: nat) \<and> (of_char c :: nat) \<le> 0xBF)"

definition between :: "nat \<Rightarrow> char \<Rightarrow> nat \<Rightarrow> bool" where
  "between lo c hi = (lo \<le> of_char c \<and> (of_char c :: nat) \<le> hi)"

fun utf8_valid :: "string \<Rightarrow> bool" where
  "utf8_valid [] = True"
| "utf8_valid [b] = between 0 b 0x7F"
| "utf8_valid [b, c1] =
     (if between 0 b 0x7F then utf8_valid [c1] else between 0xC2 b 0xDF \<and> cont c1)"
| "utf8_valid [b, c1, c2] =
     (if between 0 b 0x7F then utf8_valid [c1, c2]
      else if between 0xC2 b 0xDF then cont c1 \<and> utf8_valid [c2]
      else (between 0xE0 b 0xE0 \<and> between 0xA0 c1 0xBF \<and> cont c2)
         \<or> (between 0xE1 b 0xEC \<and> cont c1 \<and> cont c2)
         \<or> (between 0xED b 0xED \<and> between 0x80 c1 0x9F \<and> cont c2)
         \<or> (between 0xEE b 0xEF \<and> cont c1 \<and> cont c2))"
| "utf8_valid (b # c1 # c2 # c3 # bs) =
     (if between 0 b 0x7F then utf8_valid (c1 # c2 # c3 # bs)
      else if between 0xC2 b 0xDF then cont c1 \<and> utf8_valid (c2 # c3 # bs)
      else if between 0xE0 b 0xE0 then between 0xA0 c1 0xBF \<and> cont c2 \<and> utf8_valid (c3 # bs)
      else if between 0xE1 b 0xEC then cont c1 \<and> cont c2 \<and> utf8_valid (c3 # bs)
      else if between 0xED b 0xED then between 0x80 c1 0x9F \<and> cont c2 \<and> utf8_valid (c3 # bs)
      else if between 0xEE b 0xEF then cont c1 \<and> cont c2 \<and> utf8_valid (c3 # bs)
      else if between 0xF0 b 0xF0 then between 0x90 c1 0xBF \<and> cont c2 \<and> cont c3 \<and> utf8_valid bs
      else if between 0xF1 b 0xF3 then cont c1 \<and> cont c2 \<and> cont c3 \<and> utf8_valid bs
      else between 0xF4 b 0xF4 \<and> between 0x80 c1 0x8F \<and> cont c2 \<and> cont c3 \<and> utf8_valid bs)"

definition decode :: "string \<Rightarrow> error + string" where
  "decode bytes = (if utf8_valid bytes then Inr bytes else Inl UnicodeDecodeError)"

text \<open>
  \<^verbatim>\<open>re.match("T=([0-9\.]+) H=([0-9\.]+)", response)\<close> matches at the start of the
  text and not necessarily to its end. A group is a non-empty run of digits and dots.
  The first group is followed by a space, which is not in the class, so the only run
  that can match is the longest one; the second group is greedy and nothing follows it,
  so it is the longest run too. The result holds the two groups.
\<close>

definition in_class :: "char \<Rightarrow> bool" where
  "in_class c = (c \<in> set ''0123456789.'')"

definition strip_prefix :: "string \<Rightarrow> string \<Rightarrow> string option" where
  "strip_prefix p s = (if take (length p) s = p then Some (drop (length p) s) else None)"

definition re_match :: "string \<Rightarrow> (string \<times> string) option" where
  "re_match response =
     (case strip_prefix ''T='' response of
        None \<Rightarrow> None
      | Some r1 \<Rightarrow>
          let g0 = takeWhile in_class r1 in
          if g0 = [] then None
          else
            (case strip_prefix '' H='' (dropWhile in_class r1) of
               None \<Rightarrow> None
             | Some r2 \<Rightarrow>
                 let g1 = takeWhile in_class r2 in
                 if g1 = [] then None else Some (g0, g1)))"

text \<open>
  \<^verbatim>\<open>float(s)\<close> on the texts a group can hold, digits and dots: it accepts a text
  with at least one digit and at most one dot (\<^verbatim>\<open>"23"\<close>, \<^verbatim>\<open>"23."\<close>, \<^verbatim>\<open>".5"\<close>,
  \<^verbatim>\<open>"23.5"\<close>) and raises \<^verbatim>\<open>ValueError\<close> on the others (\<^verbatim>\<open>"."\<close>,
  \<^verbatim>\<open>"1.2.3"\<close>). The float is the one a literal of the same digits denotes: the
  nearest double, an infinity for a number that is too large. The handler calls it on
  groups only, so the other forms Python accepts (a sign, an exponent, blanks) are not
  modelled.
\<close>

definition is_digit :: "char \<Rightarrow> bool" where
  "is_digit c = (c \<in> set ''0123456789'')"

definition decimal :: "string \<Rightarrow> nat" where
  "decimal ds = foldl (\<lambda>a c. 10 * a + (of_char c - 48)) 0 ds"

definition py_float :: "arith \<Rightarrow> string \<Rightarrow> error + pyfloat" where
  "py_float A s =
     (let ip = takeWhile is_digit s in
      case dropWhile is_digit s of
        [] \<Rightarrow> if ip = [] then Inl ValueError else Inr (flit A (real (decimal ip)))
      | c # fp \<Rightarrow>
          if c = CHR ''.'' \<and> list_all is_digit fp \<and> (ip \<noteq> [] \<or> fp \<noteq> [])
          then Inr (flit A (real (decimal ip) + real (decimal fp) / 10 ^ length fp))
          else Inl ValueError)"

text \<open>
  The object keeps \<^verbatim>\<open>_mac\<close> and \<^verbatim>\<open>_measurement\<close>; the BLE client is the external
  library. \<^verbatim>\<open>__init__\<close> sets \<^verbatim>\<open>_measurement\<close> to \<^verbatim>\<open>None\<close>.
\<close>

record XiaomiThermometerHygrometer =
  mac :: string
  measurement :: "pyfloat Measurement option"

definition XiaomiThermometerHygrometer_init :: "string \<Rightarrow> XiaomiThermometerHygrometer" where
  "XiaomiThermometerHygrometer_init m = \<lparr>mac = m, measurement = None\<rparr>"

text \<open>
  \<^verbatim>\<open>notification_handler\<close>, lines 123 to 128. The arguments of the constructor are
  evaluated left to right. An exception leaves before the assignment.
\<close>

definition notification_handler ::
  "arith \<Rightarrow> string \<Rightarrow> XiaomiThermometerHygrometer \<Rightarrow> error + XiaomiThermometerHygrometer" where
  "notification_handler A bytes self =
     (case decode bytes of
        Inl err \<Rightarrow> Inl err
      | Inr response \<Rightarrow>
          (case re_match response of
             None \<Rightarrow> Inr self
           | Some (g0, g1) \<Rightarrow>
               (case py_float A g0 of
                  Inl err \<Rightarrow> Inl err
                | Inr tc \<Rightarrow>
                    (case py_float A g1 of
                       Inl err \<Rightarrow> Inl err
                     | Inr rh \<Rightarrow>
                         (case Measurement_new A tc rh of
                            Inl err \<Rightarrow> Inl err
                          | Inr m \<Rightarrow> Inr (self\<lparr>measurement := Some m\<rparr>))))))"

text \<open>
  The BLE library calls the handler when a notification arrives, while the caller is
  suspended at an \<^verbatim>\<open>await\<close>. An exception of the handler is raised inside the library
  and not in \<^verbatim>\<open>requestMeasurement\<close>: the object is as it was.
\<close>

definition deliver ::
  "arith \<Rightarrow> XiaomiThermometerHygrometer \<Rightarrow> string \<Rightarrow> XiaomiThermometerHygrometer" where
  "deliver A self bytes =
     (case notification_handler A bytes self of Inl err \<Rightarrow> self | Inr self' \<Rightarrow> self')"

definition deliver_all ::
  "arith \<Rightarrow> XiaomiThermometerHygrometer \<Rightarrow> string list \<Rightarrow> XiaomiThermometerHygrometer" where
  "deliver_all A self payloads = foldl (deliver A) self payloads"

text \<open>
  What the sensor sends during one call: the payloads that arrive while
  \<^verbatim>\<open>start_notify\<close> and \<^verbatim>\<open>write_gatt_char\<close> are awaited, those that arrive during
  the sleep of poll \<open>i\<close>, and those that arrive while \<^verbatim>\<open>stop_notify\<close> is awaited.
\<close>

record schedule =
  before_loop :: "string list"
  during_poll :: "nat \<Rightarrow> string list"
  after_loop :: "string list"

text \<open>
  The loop of lines 136 to 139. A \<^verbatim>\<open>Measurement\<close> object is always true (the class
  defines neither \<^verbatim>\<open>__bool__\<close> nor \<^verbatim>\<open>__len__\<close>), so
  \<^verbatim>\<open>not self._measurement\<close> holds exactly when the field is \<^verbatim>\<open>None\<close>. The result
  is the object and the final value of \<open>i\<close>, the number of sleeps.
\<close>

function wait_loop ::
  "arith \<Rightarrow> (nat \<Rightarrow> string list) \<Rightarrow> XiaomiThermometerHygrometer \<Rightarrow> nat
     \<Rightarrow> XiaomiThermometerHygrometer \<times> nat" where
  "wait_loop A polls self i =
     (if measurement self = None \<and> i < 10
      then wait_loop A polls (deliver_all A self (polls i)) (i + 1)
      else (self, i))"
  by pat_completeness auto
termination
  by (relation "measure (\<lambda>(A, polls, self, i). 10 - i)") auto

declare wait_loop.simps [simp del]

text \<open>
  \<^verbatim>\<open>requestMeasurement\<close>, lines 121 to 145, with the BLE calls succeeding: the
  returned value and the object after the call.
\<close>

definition requestMeasurement ::
  "arith \<Rightarrow> schedule \<Rightarrow> XiaomiThermometerHygrometer
     \<Rightarrow> pyfloat Measurement option \<times> XiaomiThermometerHygrometer" where
  "requestMeasurement A sched self =
     (let self1 = deliver_all A self (before_loop sched);
          (self2, i) = wait_loop A (during_poll sched) self1 0;
          self3 = deliver_all A self2 (after_loop sched)
      in (measurement self3, self3))"

text \<open>
  The object after \<open>j\<close> sleeps of the loop, whatever the loop condition says: the
  payloads of the polls \<open>0\<close> to \<open>j - 1\<close> delivered in order.
\<close>

primrec after_polls ::
  "arith \<Rightarrow> (nat \<Rightarrow> string list) \<Rightarrow> XiaomiThermometerHygrometer \<Rightarrow> nat
     \<Rightarrow> XiaomiThermometerHygrometer" where
  "after_polls A polls self 0 = self"
| "after_polls A polls self (Suc j) = deliver_all A (after_polls A polls self j) (polls j)"

text \<open>The payloads that can reach the handler during one call: the loop sleeps ten times at most.\<close>

definition payloads :: "schedule \<Rightarrow> string set" where
  "payloads sched =
     set (before_loop sched) \<union> (\<Union>i\<in>{..<10}. set (during_poll sched i)) \<union> set (after_loop sched)"

section \<open>The scan callback\<close>

text \<open>
  A \<^verbatim>\<open>BLEDevice\<close> has an address and a name that may be \<^verbatim>\<open>None\<close>. The scan keeps
  the list \<^verbatim>\<open>found_devices\<close>; what it prints is kept per stream, one entry for each
  call of \<^verbatim>\<open>print\<close>, without the line end.
\<close>

record BLEDevice =
  address :: string
  name :: "string option"

record scan_state =
  found_devices :: "string list"
  stdout :: "string list"
  stderr :: "string list"

text \<open>\<^verbatim>\<open>str.lower\<close> on ASCII text, which a MAC address is.\<close>

definition lower_char :: "char \<Rightarrow> char" where
  "lower_char c =
     (case map_of (zip ''ABCDEFGHIJKLMNOPQRSTUVWXYZ'' ''abcdefghijklmnopqrstuvwxyz'') c of
        None \<Rightarrow> c
      | Some l \<Rightarrow> l)"

definition lower :: "string \<Rightarrow> string" where
  "lower s = map lower_char s"

definition startswith :: "string \<Rightarrow> string \<Rightarrow> bool" where
  "startswith s p = (take (length p) s = p)"

text \<open>\<^verbatim>\<open>None\<close> and the empty text are false; any other name is true.\<close>

definition truthy :: "string option \<Rightarrow> bool" where
  "truthy n = (case n of None \<Rightarrow> False | Some v \<Rightarrow> v \<noteq> [])"

definition name_text :: "string option \<Rightarrow> string" where
  "name_text n = (case n of None \<Rightarrow> ''None'' | Some v \<Rightarrow> v)"

text \<open>\<^verbatim>\<open>'%i' % n\<close> for a length: the decimal digits of \<open>n\<close>.\<close>

fun show_nat :: "nat \<Rightarrow> string" where
  "show_nat n =
     (if n < 10 then [''0123456789'' ! n]
      else show_nat (n div 10) @ [''0123456789'' ! (n mod 10)])"

declare show_nat.simps [simp del]

text \<open>\<^verbatim>\<open>callback\<close>, lines 172 to 180.\<close>

definition callback :: "BLEDevice \<Rightarrow> scan_state \<Rightarrow> scan_state" where
  "callback device s =
     (if address device \<notin> set (found_devices s) then
        let s1 = s\<lparr>found_devices := found_devices s @ [address device]\<rparr> in
        if truthy (name device) \<and> startswith (lower (address device)) ''4c:65:a8:''
        then s1\<lparr>stdout := stdout s1 @ [address device @ ''    '' @ name_text (name device)]\<rparr>
        else if truthy (name device)
        then s1\<lparr>stderr := stderr s1 @
                 ['' '' @ show_nat (length (found_devices s1)) @ '' bluetooth devices seen'']\<rparr>
        else s1
      else s)"

text \<open>
  \<^verbatim>\<open>scan\<close>, lines 168 to 183: the list starts empty and the scanner calls the callback
  once for each advertisement it receives during the 20 seconds.
\<close>

definition scan :: "BLEDevice list \<Rightarrow> scan_state" where
  "scan advertisements =
     foldl (\<lambda>s device. callback device s)
       \<lparr>found_devices = [], stdout = [], stderr = []\<rparr> advertisements"

text \<open>
  The expected output of a scan, as functions of the list of advertisements: the
  advertisements that are the first of their address (given the addresses already
  seen), the test for a device that is reported, and the line printed for it.
\<close>

fun first_seen :: "string list \<Rightarrow> BLEDevice list \<Rightarrow> BLEDevice list" where
  "first_seen seen [] = []"
| "first_seen seen (d # ds) =
     (if address d \<in> set seen then first_seen seen ds
      else d # first_seen (seen @ [address d]) ds)"

definition is_vendor :: "BLEDevice \<Rightarrow> bool" where
  "is_vendor d = (truthy (name d) \<and> startswith (lower (address d)) ''4c:65:a8:'')"

definition report_line :: "BLEDevice \<Rightarrow> string" where
  "report_line d = address d @ ''    '' @ name_text (name d)"

section \<open>Rounding, truncation and the fields of a Measurement\<close>

lemma py_int_toward_zero:
  "\<bar>real_of_int (py_int x)\<bar> \<le> \<bar>x\<bar> \<and> \<bar>x\<bar> - \<bar>real_of_int (py_int x)\<bar> < 1"
proof (cases "0 \<le> x")
  case True
  then have "0 \<le> \<lfloor>x\<rfloor>" by simp
  with True show ?thesis unfolding py_int_def by simp linarith
next
  case False
  then have "\<lceil>x\<rceil> \<le> 0" by (simp add: ceiling_le_zero)
  with False show ?thesis unfolding py_int_def by simp linarith
qed

lemma py_int_sign: "0 \<le> real_of_int (py_int x) * x"
proof (cases "0 \<le> x")
  case True
  then have "0 \<le> \<lfloor>x\<rfloor>" by simp
  with True show ?thesis unfolding py_int_def by simp
next
  case False
  then have "\<lceil>x\<rceil> \<le> 0" by (simp add: ceiling_le_zero)
  with False show ?thesis unfolding py_int_def by (simp add: mult_nonpos_nonpos)
qed




lemma py_round_nearest: "\<bar>real_of_int (py_round x) - x\<bar> \<le> 1 / 2"
proof -
  have b: "real_of_int \<lfloor>x\<rfloor> \<le> x" "x < real_of_int \<lfloor>x\<rfloor> + 1" by linarith+
  consider "x - real_of_int \<lfloor>x\<rfloor> < 1 / 2" | "1 / 2 < x - real_of_int \<lfloor>x\<rfloor>"
    | "x - real_of_int \<lfloor>x\<rfloor> = 1 / 2" by linarith
  then show ?thesis
  proof cases
    case 1
    then have "py_round x = \<lfloor>x\<rfloor>" by (simp add: py_round_def Let_def)
    with 1 b show ?thesis by simp
  next
    case 2
    then have "py_round x = \<lfloor>x\<rfloor> + 1" by (simp add: py_round_def Let_def)
    with 2 b show ?thesis by simp
  next
    case 3
    then have "py_round x = \<lfloor>x\<rfloor> \<or> py_round x = \<lfloor>x\<rfloor> + 1" by (simp add: py_round_def Let_def)
    with 3 show ?thesis by auto
  qed
qed

lemma es_of_pos: "0 < es_of t"
  by (simp add: es_of_def)

lemma z2_of_pos_iff: "0 < z2_of t h \<longleftrightarrow> 0 < h"
  using es_of_pos[of t] by (simp add: z2_of_def e_of_def zero_less_mult_iff)

lemma z2_of_eq: "z2_of t h = exp (z1_of t * 2.3025851) * (h / 100)"
  by (simp add: z2_of_def e_of_def es_of_def)

lemma z3_of_eq:
  assumes "0 < h"
  shows "z3_of t h = 0.434292289 * (z1_of t * 2.3025851 + ln (h / 100))"
proof -
  have "ln (exp (z1_of t * 2.3025851) * (h / 100)) = ln (exp (z1_of t * 2.3025851)) + ln (h / 100)"
    using assms by (intro ln_mult_pos) simp_all
  then show ?thesis unfolding z3_of_def z2_of_eq by simp
qed

lemma z3_of_saturated: "z3_of t 100 = 0.434292289 * (z1_of t * 2.3025851)"
  by (simp add: z3_of_eq)

lemma Measurement_init_Inr:
  assumes "0 < h" "t \<noteq> - 235" "t \<noteq> - 273.15" "z3_of t h \<noteq> 7.45"
  shows "Measurement_init t h =
    Inr \<lparr>temperatureC = t, relHumidity = h,
         absHumidity = real_of_int (py_round ((216.7 * e_of t h) / (273.15 + t) * 10)) / 10,
         dewPointC = real_of_int (py_int ((235 * z3_of t h) / (7.45 - z3_of t h) * 10)) / 10,
         steamPressure = real_of_int (py_int (e_of t h * 10)) / 10,
         temperatureF = t * 9 / 5 + 32,
         dewPointF = real_of_int (py_int ((235 * z3_of t h) / (7.45 - z3_of t h) * 10)) / 10 * 9 / 5 + 32\<rparr>"
proof -
  have "235 + t \<noteq> 0" "273.15 + t \<noteq> 0" using assms(2,3) by linarith+
  moreover have "\<not> z2_of t h \<le> 0" using z2_of_pos_iff[of t h] assms(1) by simp
  moreover have "7.45 - z3_of t h \<noteq> 0" using assms(4) by simp
  ultimately show ?thesis by (simp add: Measurement_init_def Let_def)
qed

lemma Measurement_init_Inl:
  assumes "h \<le> 0 \<or> t = - 235"
  shows "Measurement_init t h = Inl ZeroDivisionError \<or> Measurement_init t h = Inl ValueError"
proof (cases "t = - 235")
  case True
  then show ?thesis by (simp add: Measurement_init_def)
next
  case False
  with assms have "h \<le> 0" by simp
  then have "z2_of t h \<le> 0" using z2_of_pos_iff[of t h] by simp
  then show ?thesis by (simp add: Measurement_init_def)
qed

lemma z1_of_less: "- 235 < t \<Longrightarrow> z1_of t < 7.45"
  unfolding z1_of_def by (simp add: field_simps)

lemma dew_of_z1: "- 235 < s \<Longrightarrow> (235 * z1_of s) / (7.45 - z1_of s) = s"
  unfolding z1_of_def by (simp add: field_simps)

lemma dew_mono:
  fixes a b :: real
  assumes "a \<le> b" "b < 7.45"
  shows "(235 * a) / (7.45 - a) \<le> (235 * b) / (7.45 - b)"
proof -
  have "0 < 7.45 - a" "0 < 7.45 - b" using assms by linarith+
  then show ?thesis using assms(1) by (simp add: field_simps)
qed

lemma z3_of_le_saturated:
  assumes "0 < h" "h \<le> 100"
  shows "z3_of t h \<le> 0.434292289 * (z1_of t * 2.3025851)"
proof -
  have "ln (h / 100) \<le> 0" using assms by (simp add: ln_le_zero_iff)
  then show ?thesis unfolding z3_of_eq[OF assms(1)] by simp
qed

lemma z3_of_less:
  assumes "- 235 < t" "0 < h" "h \<le> 100"
  shows "z3_of t h < 7.45"
proof -
  have "0.434292289 * (z1_of t * 2.3025851) < 7.45"
    using z1_of_less[OF assms(1)] by simp
  with z3_of_le_saturated[OF assms(2,3), of t] show ?thesis by linarith
qed


lemma sat_upper:
  assumes "- 20 \<le> t" "t \<le> 50"
  shows "0.434292289 * (z1_of t * 2.3025851) \<le> z1_of (t + 0.0004)"
proof -
  have sq: "0 \<le> t * t" by simp
  have "0 < 235 + t" "0 < 235 + (t + 0.0004)" using assms by simp_all
  then show ?thesis unfolding z1_of_def using assms sq
    by (simp add: field_simps) 
qed

lemma sat_lower:
  assumes "- 20 \<le> t" "t \<le> 50"
  shows "z1_of (t - 0.0004) \<le> 0.434292289 * (z1_of t * 2.3025851)"
proof -
  have sq: "0 \<le> (t + 20) * (50 - t)" using assms by simp
  have "0 < 235 + t" "0 < 235 + (t - 0.0004)" using assms by simp_all
  then show ?thesis unfolding z1_of_def using assms sq
    by (simp add: field_simps) 
qed

lemma init_0_100: "Measurement_init 0 100 =
   Inr \<lparr>temperatureC = 0, relHumidity = 100, absHumidity = 4.8, dewPointC = 0,
        steamPressure = 6.1, temperatureF = 32, dewPointF = 32\<rparr>"
  by (simp add: Measurement_init_def z3_of_def z2_of_def e_of_def es_of_def z1_of_def py_int_def py_round_def Let_def)

lemma py_round_tie_even: "\<bar>real_of_int (py_round x) - x\<bar> = 1 / 2 \<Longrightarrow> even (py_round x)"
proof -
  assume a: "\<bar>real_of_int (py_round x) - x\<bar> = 1 / 2"
  have b: "real_of_int \<lfloor>x\<rfloor> \<le> x" "x < real_of_int \<lfloor>x\<rfloor> + 1" by linarith+
  consider "x - real_of_int \<lfloor>x\<rfloor> < 1 / 2" | "1 / 2 < x - real_of_int \<lfloor>x\<rfloor>"
    | "x - real_of_int \<lfloor>x\<rfloor> = 1 / 2" by linarith
  then show ?thesis
  proof cases
    case 1
    then have "py_round x = \<lfloor>x\<rfloor>" by (simp add: py_round_def Let_def)
    with 1 b a show ?thesis by simp
  next
    case 2
    then have "py_round x = \<lfloor>x\<rfloor> + 1" by (simp add: py_round_def Let_def)
    with 2 b a show ?thesis by simp
  next
    case 3
    then show ?thesis by (simp add: py_round_def Let_def)
  qed
qed

lemma py_int_le:
  assumes "x \<le> y" "0 \<le> y"
  shows "real_of_int (py_int x) \<le> y"
proof (cases "0 \<le> x")
  case True
  then show ?thesis using assms unfolding py_int_def by simp linarith
next
  case False
  then have "\<lceil>x\<rceil> \<le> 0" by (simp add: ceiling_le_zero)
  then have c: "real_of_int \<lceil>x\<rceil> \<le> 0" by simp
  have "py_int x = \<lceil>x\<rceil>" using False by (simp add: py_int_def)
  then show ?thesis using c assms(2) by linarith
qed

lemma py_int_less_add1: "real_of_int (py_int x) < x + 1"
  unfolding py_int_def by (auto) linarith+

lemma py_int_greater_sub1: "x - 1 < real_of_int (py_int x)"
  unfolding py_int_def by (auto) linarith+

lemma Measurement_init_normal:
  assumes "- 235 < t" "0 < h" "h \<le> 100"
  shows "Measurement_init t h =
    Inr \<lparr>temperatureC = t, relHumidity = h,
         absHumidity = real_of_int (py_round ((216.7 * e_of t h) / (273.15 + t) * 10)) / 10,
         dewPointC = real_of_int (py_int ((235 * z3_of t h) / (7.45 - z3_of t h) * 10)) / 10,
         steamPressure = real_of_int (py_int (e_of t h * 10)) / 10,
         temperatureF = t * 9 / 5 + 32,
         dewPointF = real_of_int (py_int ((235 * z3_of t h) / (7.45 - z3_of t h) * 10)) / 10 * 9 / 5 + 32\<rparr>"
proof -
  have "t \<noteq> - 235" "t \<noteq> - 273.15" using assms(1) by simp_all
  moreover have "z3_of t h \<noteq> 7.45" using z3_of_less[OF assms] by simp
  ultimately show ?thesis using assms(2) by (intro Measurement_init_Inr)
qed


lemma and_thenE:
  assumes "and_then r f = Inr y"
  obtains v where "r = Inr v" and "f v = Inr y"
  using assms unfolding and_then_def by (cases r) simp_all

lemma round_floatD:
  assumes "round_float x = Inr n"
  shows "\<exists>v. x = Finite v \<and> \<bar>real_of_int n - v\<bar> \<le> 1 / 2 \<and> (\<bar>real_of_int n - v\<bar> = 1 / 2 \<longrightarrow> even n)"
  using assms py_round_nearest py_round_tie_even
  by (cases x) (auto simp: round_float_def)

lemma int_floatD:
  assumes "int_float x = Inr k"
  shows "\<exists>v. x = Finite v \<and> \<bar>real_of_int k\<bar> \<le> \<bar>v\<bar> \<and> \<bar>v\<bar> - \<bar>real_of_int k\<bar> < 1
    \<and> 0 \<le> real_of_int k * v"
  using assms py_int_toward_zero py_int_sign
  by (cases x) (auto simp: int_float_def)

lemma Measurement_new_steps:
  assumes "Measurement_new A t h = Inr m"
  obtains z1 x e z2 q n ah l d k dp j sp f1 f2 where
    "truediv A (fmul A (flit A 7.45) t) (fadd A (flit A 235) t) = Inr z1"
    and "fexp A (fmul A z1 (flit A 2.3025851)) = Inr x"
    and "truediv A (fmul A (fmul A (flit A 6.1) x) h) (flit A 100) = Inr e"
    and "truediv A e (flit A 6.1) = Inr z2"
    and "truediv A (fmul A (flit A 216.7) e) (fadd A (flit A 273.15) t) = Inr q"
    and "round_float (fmul A q (flit A 10)) = Inr n"
    and "truediv A (fint A n) (flit A 10) = Inr ah"
    and "math_log A z2 = Inr l"
    and "truediv A (fmul A (flit A 235) (fmul A (flit A 0.434292289) l))
             (fsub A (flit A 7.45) (fmul A (flit A 0.434292289) l)) = Inr d"
    and "int_float (fmul A d (flit A 10)) = Inr k"
    and "truediv A (fint A k) (flit A 10) = Inr dp"
    and "int_float (fmul A e (flit A 10)) = Inr j"
    and "truediv A (fint A j) (flit A 10) = Inr sp"
    and "truediv A (fmul A t (flit A 9)) (flit A 5) = Inr f1"
    and "truediv A (fmul A dp (flit A 9)) (flit A 5) = Inr f2"
    and "m = \<lparr>temperatureC = t, relHumidity = h, absHumidity = ah,
          dewPointC = dp, steamPressure = sp,
          temperatureF = fadd A f1 (flit A 32),
          dewPointF = fadd A f2 (flit A 32)\<rparr>"
  using assms unfolding Measurement_new_def Let_def
  by (elim and_thenE) auto

lemma Measurement_new_exact:
  "Measurement_new exact_arith (Finite t) (Finite h) = map_sum id finite_fields (Measurement_init t h)"
  unfolding Measurement_new_def Measurement_init_def
  by (simp add: exact_arith_def and_then_def truediv_def math_log_def round_float_def
      int_float_def finite_fields_def z3_of_def z2_of_def e_of_def es_of_def z1_of_def Let_def)

lemma new_0_100:
  "Measurement_new exact_arith (Finite 0) (Finite 100) =
     Inr \<lparr>temperatureC = Finite 0, relHumidity = Finite 100, absHumidity = Finite 4.8,
          dewPointC = Finite 0, steamPressure = Finite 6.1, temperatureF = Finite 32,
          dewPointF = Finite 32\<rparr>"
  by (simp add: Measurement_new_exact init_0_100 finite_fields_def)

text \<open>
  Claim C1, amended. Whenever the constructor returns a \<open>Measurement\<close>, in
  whatever float arithmetic, \<open>temperatureC\<close> and \<open>relHumidity\<close> are its arguments, and
  with \<open>es = 6.1 * exp(((7.45 * t) / (235 + t)) * 2.3025851)\<close>, \<open>e = es * h / 100.0\<close>
  and \<open>z3 = 0.434292289 * log(e / 6.1)\<close> as the arithmetic computes them:
  \<open>absHumidity\<close> is \<open>n / 10.0\<close> for an integer \<open>n\<close> nearest to the computed value of
  \<open>(216.7 * e) / (273.15 + t) * 10\<close>, a tie going to the even neighbour;
  \<open>dewPointC\<close> is \<open>k / 10.0\<close> and \<open>steamPressure\<close> is \<open>j / 10.0\<close> for the integers
  obtained from the computed values of \<open>(235 * z3) / (7.45 - z3) * 10\<close> and of
  \<open>e * 10\<close> by dropping the fraction: not larger in magnitude, less than one away, and
  of the same sign. In exact arithmetic the constructor returns a \<open>Measurement\<close> for
  every temperature from \<open>-20\<close> to \<open>50\<close> and every humidity from \<open>1e-300\<close> to \<open>100\<close>.
\<close>

theorem Measurement_new_fields:
  "(Measurement_new A t h = Inr m \<longrightarrow>
      temperatureC m = t \<and> relHumidity m = h
      \<and> (\<exists>z1 x e q v1 n z2 l d v2 k v3 j.
            truediv A (fmul A (flit A 7.45) t) (fadd A (flit A 235) t) = Inr z1
          \<and> fexp A (fmul A z1 (flit A 2.3025851)) = Inr x
          \<and> truediv A (fmul A (fmul A (flit A 6.1) x) h) (flit A 100) = Inr e
          \<and> truediv A (fmul A (flit A 216.7) e) (fadd A (flit A 273.15) t) = Inr q
          \<and> fmul A q (flit A 10) = Finite v1
          \<and> \<bar>real_of_int n - v1\<bar> \<le> 1 / 2 \<and> (\<bar>real_of_int n - v1\<bar> = 1 / 2 \<longrightarrow> even n)
          \<and> truediv A (fint A n) (flit A 10) = Inr (absHumidity m)
          \<and> truediv A e (flit A 6.1) = Inr z2
          \<and> math_log A z2 = Inr l
          \<and> truediv A (fmul A (flit A 235) (fmul A (flit A 0.434292289) l))
               (fsub A (flit A 7.45) (fmul A (flit A 0.434292289) l)) = Inr d
          \<and> fmul A d (flit A 10) = Finite v2
          \<and> \<bar>real_of_int k\<bar> \<le> \<bar>v2\<bar> \<and> \<bar>v2\<bar> - \<bar>real_of_int k\<bar> < 1 \<and> 0 \<le> real_of_int k * v2
          \<and> truediv A (fint A k) (flit A 10) = Inr (dewPointC m)
          \<and> fmul A e (flit A 10) = Finite v3
          \<and> \<bar>real_of_int j\<bar> \<le> \<bar>v3\<bar> \<and> \<bar>v3\<bar> - \<bar>real_of_int j\<bar> < 1 \<and> 0 \<le> real_of_int j * v3
          \<and> truediv A (fint A j) (flit A 10) = Inr (steamPressure m)))
   \<and> (- 20 \<le> t' \<and> t' \<le> 50 \<and> 1 / 10 ^ 300 \<le> h' \<and> h' \<le> 100 \<longrightarrow>
        (\<exists>m'. Measurement_new exact_arith (Finite t') (Finite h') = Inr m'))"
proof (intro conjI impI)
  assume b: "- 20 \<le> t' \<and> t' \<le> 50 \<and> 1 / 10 ^ 300 \<le> h' \<and> h' \<le> 100"
  have p: "(0::real) < 1 / 10 ^ 300" by simp
  from b p have "- 235 < t'" "0 < h'" "h' \<le> 100" by linarith+
  from Measurement_init_normal[OF this]
  show "\<exists>m'. Measurement_new exact_arith (Finite t') (Finite h') = Inr m'"
    by (simp add: Measurement_new_exact)
next
  assume assms: "Measurement_new A t h = Inr m"
  have r: "temperatureC m = t \<and> relHumidity m = h
    \<and> (\<exists>z1 x e q v1 n z2 l d v2 k v3 j.
          truediv A (fmul A (flit A 7.45) t) (fadd A (flit A 235) t) = Inr z1
        \<and> fexp A (fmul A z1 (flit A 2.3025851)) = Inr x
        \<and> truediv A (fmul A (fmul A (flit A 6.1) x) h) (flit A 100) = Inr e
        \<and> truediv A (fmul A (flit A 216.7) e) (fadd A (flit A 273.15) t) = Inr q
        \<and> fmul A q (flit A 10) = Finite v1
        \<and> \<bar>real_of_int n - v1\<bar> \<le> 1 / 2 \<and> (\<bar>real_of_int n - v1\<bar> = 1 / 2 \<longrightarrow> even n)
        \<and> truediv A (fint A n) (flit A 10) = Inr (absHumidity m)
        \<and> truediv A e (flit A 6.1) = Inr z2
        \<and> math_log A z2 = Inr l
        \<and> truediv A (fmul A (flit A 235) (fmul A (flit A 0.434292289) l))
             (fsub A (flit A 7.45) (fmul A (flit A 0.434292289) l)) = Inr d
        \<and> fmul A d (flit A 10) = Finite v2
        \<and> \<bar>real_of_int k\<bar> \<le> \<bar>v2\<bar> \<and> \<bar>v2\<bar> - \<bar>real_of_int k\<bar> < 1 \<and> 0 \<le> real_of_int k * v2
        \<and> truediv A (fint A k) (flit A 10) = Inr (dewPointC m)
        \<and> fmul A e (flit A 10) = Finite v3
        \<and> \<bar>real_of_int j\<bar> \<le> \<bar>v3\<bar> \<and> \<bar>v3\<bar> - \<bar>real_of_int j\<bar> < 1 \<and> 0 \<le> real_of_int j * v3
        \<and> truediv A (fint A j) (flit A 10) = Inr (steamPressure m))"
  proof -
    from assms obtain z1 x e z2 q n ah l d k dp j sp f1 f2 where
      z1: "truediv A (fmul A (flit A 7.45) t) (fadd A (flit A 235) t) = Inr z1"
      and x: "fexp A (fmul A z1 (flit A 2.3025851)) = Inr x"
      and e: "truediv A (fmul A (fmul A (flit A 6.1) x) h) (flit A 100) = Inr e"
      and z2: "truediv A e (flit A 6.1) = Inr z2"
      and q: "truediv A (fmul A (flit A 216.7) e) (fadd A (flit A 273.15) t) = Inr q"
      and n: "round_float (fmul A q (flit A 10)) = Inr n"
      and ah: "truediv A (fint A n) (flit A 10) = Inr ah"
      and l: "math_log A z2 = Inr l"
      and d: "truediv A (fmul A (flit A 235) (fmul A (flit A 0.434292289) l))
               (fsub A (flit A 7.45) (fmul A (flit A 0.434292289) l)) = Inr d"
      and k: "int_float (fmul A d (flit A 10)) = Inr k"
      and dp: "truediv A (fint A k) (flit A 10) = Inr dp"
      and j: "int_float (fmul A e (flit A 10)) = Inr j"
      and sp: "truediv A (fint A j) (flit A 10) = Inr sp"
      and m: "m = \<lparr>temperatureC = t, relHumidity = h, absHumidity = ah,
            dewPointC = dp, steamPressure = sp,
            temperatureF = fadd A f1 (flit A 32),
            dewPointF = fadd A f2 (flit A 32)\<rparr>"
      by (rule Measurement_new_steps)
    from round_floatD[OF n] obtain v1 where v1: "fmul A q (flit A 10) = Finite v1"
      "\<bar>real_of_int n - v1\<bar> \<le> 1 / 2" "\<bar>real_of_int n - v1\<bar> = 1 / 2 \<longrightarrow> even n" by blast
    from int_floatD[OF k] obtain v2 where v2: "fmul A d (flit A 10) = Finite v2"
      "\<bar>real_of_int k\<bar> \<le> \<bar>v2\<bar>" "\<bar>v2\<bar> - \<bar>real_of_int k\<bar> < 1" "0 \<le> real_of_int k * v2" by blast
    from int_floatD[OF j] obtain v3 where v3: "fmul A e (flit A 10) = Finite v3"
      "\<bar>real_of_int j\<bar> \<le> \<bar>v3\<bar>" "\<bar>v3\<bar> - \<bar>real_of_int j\<bar> < 1" "0 \<le> real_of_int j * v3" by blast
    have "temperatureC m = t" "relHumidity m = h" "absHumidity m = ah" "dewPointC m = dp"
      "steamPressure m = sp" by (simp_all add: m)
    with z1 x e z2 q ah l d dp sp v1 v2 v3 show ?thesis by blast
  qed
  from r show "temperatureC m = t" by blast
  from r show "relHumidity m = h" by blast
  from r show "\<exists>z1 x e q v1 n z2 l d v2 k v3 j.
          truediv A (fmul A (flit A 7.45) t) (fadd A (flit A 235) t) = Inr z1
        \<and> fexp A (fmul A z1 (flit A 2.3025851)) = Inr x
        \<and> truediv A (fmul A (fmul A (flit A 6.1) x) h) (flit A 100) = Inr e
        \<and> truediv A (fmul A (flit A 216.7) e) (fadd A (flit A 273.15) t) = Inr q
        \<and> fmul A q (flit A 10) = Finite v1
        \<and> \<bar>real_of_int n - v1\<bar> \<le> 1 / 2 \<and> (\<bar>real_of_int n - v1\<bar> = 1 / 2 \<longrightarrow> even n)
        \<and> truediv A (fint A n) (flit A 10) = Inr (absHumidity m)
        \<and> truediv A e (flit A 6.1) = Inr z2
        \<and> math_log A z2 = Inr l
        \<and> truediv A (fmul A (flit A 235) (fmul A (flit A 0.434292289) l))
             (fsub A (flit A 7.45) (fmul A (flit A 0.434292289) l)) = Inr d
        \<and> fmul A d (flit A 10) = Finite v2
        \<and> \<bar>real_of_int k\<bar> \<le> \<bar>v2\<bar> \<and> \<bar>v2\<bar> - \<bar>real_of_int k\<bar> < 1 \<and> 0 \<le> real_of_int k * v2
        \<and> truediv A (fint A k) (flit A 10) = Inr (dewPointC m)
        \<and> fmul A e (flit A 10) = Finite v3
        \<and> \<bar>real_of_int j\<bar> \<le> \<bar>v3\<bar> \<and> \<bar>v3\<bar> - \<bar>real_of_int j\<bar> < 1 \<and> 0 \<le> real_of_int j * v3
        \<and> truediv A (fint A j) (flit A 10) = Inr (steamPressure m)" by blast
qed

text \<open>
  The theorem in exact arithmetic at \<open>t = 0\<close>, \<open>h = 100\<close>, where every field is a
  rational number.
\<close>

theorem Measurement_new_fields_witness:
  "\<exists>m. Measurement_new exact_arith (Finite 0) (Finite 100) = Inr m
     \<and> temperatureC m = Finite 0 \<and> relHumidity m = Finite 100
     \<and> absHumidity m = Finite 4.8 \<and> dewPointC m = Finite 0 \<and> steamPressure m = Finite 6.1"
proof -
  have s: "- 20 \<le> (0::real) \<and> (0::real) \<le> 50 \<and> 1 / 10 ^ 300 \<le> (100::real) \<and> (100::real) \<le> 100"
    by simp
  from Measurement_new_fields[of _ _ _ _ 0 100] s
  obtain m where m: "Measurement_new exact_arith (Finite 0) (Finite 100) = Inr m" by blast
  from Measurement_new_fields[of exact_arith "Finite 0" "Finite 100" m] m
  have "temperatureC m = Finite 0" "relHumidity m = Finite 100" by simp_all
  with m show ?thesis using new_0_100 by auto
qed

text \<open>
  Claim C1 as stated fails: \<open>t = -273.15\<close> is not \<open>-235\<close> and \<open>h = 50\<close> is
  positive, yet \<open>273.15 + t\<close> is zero and the division of line 27 raises
  \<^verbatim>\<open>ZeroDivisionError\<close>; no field is set.
\<close>

theorem absolute_zero_counterexample:
  "Measurement_init (- 273.15) 50 = Inl ZeroDivisionError
   \<and> Measurement_new exact_arith (Finite (- 273.15)) (Finite 50) = Inl ZeroDivisionError"
  by (simp add: Measurement_new_exact) (simp add: Measurement_init_def)

text \<open>
  Claim C2. For a relative humidity that is zero or negative, and for the temperature
  \<open>-235\<close>, the constructor raises and no \<open>Measurement\<close> is produced.
\<close>

theorem Measurement_init_raises:
  assumes "h \<le> 0 \<or> t = - 235"
  shows "\<exists>err. Measurement_init t h = Inl err"
  using Measurement_init_Inl[OF assms] by blast

text \<open>The theorem at \<open>h = 0\<close> and at \<open>t = -235\<close>.\<close>

theorem Measurement_init_raises_witness:
  "((0::real) \<le> 0 \<or> (20::real) = - 235) \<and> (\<exists>err. Measurement_init 20 0 = Inl err)
   \<and> (\<exists>err. Measurement_init (- 235) 50 = Inl err)"
proof -
  have "\<exists>err. Measurement_init 20 0 = Inl err"
    by (rule Measurement_init_raises) simp
  moreover have "\<exists>err. Measurement_init (- 235) 50 = Inl err"
    by (rule Measurement_init_raises) simp
  ultimately show ?thesis by simp
qed

text \<open>
  Claim C5. In every \<open>Measurement\<close> the constructor returns, in whatever float
  arithmetic, \<open>temperatureC\<close> is the temperature it was given and \<open>temperatureF\<close> is
  the computed value of that temperature \<open>* 9.0 / 5.0 + 32\<close>; \<open>dewPointC\<close> is
  \<open>k / 10.0\<close> for the integer \<open>k\<close> that \<^verbatim>\<open>int\<close> makes of the computed
  \<open>(235 * z3) / (7.45 - z3) * 10\<close>, and \<open>dewPointF\<close> is the computed value of that
  \<open>dewPointC\<close> \<open>* 9.0 / 5.0 + 32\<close>. Read on the reals: \<open>temperatureF\<close> is
  \<open>t * 9 / 5 + 32\<close> for the argument \<open>t\<close> and \<open>dewPointF\<close> is
  \<open>dewPointC * 9 / 5 + 32\<close>.
\<close>

theorem fahrenheit_fields:
  "(Measurement_new A t h = Inr m \<longrightarrow>
      temperatureC m = t
      \<and> (\<exists>f1. truediv A (fmul A t (flit A 9)) (flit A 5) = Inr f1
            \<and> temperatureF m = fadd A f1 (flit A 32))
      \<and> (\<exists>z1 x e z2 l d k.
            truediv A (fmul A (flit A 7.45) t) (fadd A (flit A 235) t) = Inr z1
          \<and> fexp A (fmul A z1 (flit A 2.3025851)) = Inr x
          \<and> truediv A (fmul A (fmul A (flit A 6.1) x) h) (flit A 100) = Inr e
          \<and> truediv A e (flit A 6.1) = Inr z2
          \<and> math_log A z2 = Inr l
          \<and> truediv A (fmul A (flit A 235) (fmul A (flit A 0.434292289) l))
               (fsub A (flit A 7.45) (fmul A (flit A 0.434292289) l)) = Inr d
          \<and> int_float (fmul A d (flit A 10)) = Inr k
          \<and> truediv A (fint A k) (flit A 10) = Inr (dewPointC m))
      \<and> (\<exists>f2. truediv A (fmul A (dewPointC m) (flit A 9)) (flit A 5) = Inr f2
            \<and> dewPointF m = fadd A f2 (flit A 32)))
   \<and> (Measurement_init t' h' = Inr m' \<longrightarrow>
        temperatureC m' = t' \<and> temperatureF m' = t' * 9 / 5 + 32
        \<and> dewPointF m' = dewPointC m' * 9 / 5 + 32)"
proof (intro conjI impI)
  assume a: "Measurement_new A t h = Inr m"
  from a obtain z1 x e z2 q n ah l d k dp j sp f1 f2 where
    z1: "truediv A (fmul A (flit A 7.45) t) (fadd A (flit A 235) t) = Inr z1"
    and x: "fexp A (fmul A z1 (flit A 2.3025851)) = Inr x"
    and e: "truediv A (fmul A (fmul A (flit A 6.1) x) h) (flit A 100) = Inr e"
    and z2: "truediv A e (flit A 6.1) = Inr z2"
    and l: "math_log A z2 = Inr l"
    and d: "truediv A (fmul A (flit A 235) (fmul A (flit A 0.434292289) l))
             (fsub A (flit A 7.45) (fmul A (flit A 0.434292289) l)) = Inr d"
    and k: "int_float (fmul A d (flit A 10)) = Inr k"
    and dp: "truediv A (fint A k) (flit A 10) = Inr dp"
    and f1: "truediv A (fmul A t (flit A 9)) (flit A 5) = Inr f1"
    and f2: "truediv A (fmul A dp (flit A 9)) (flit A 5) = Inr f2"
    and m: "m = \<lparr>temperatureC = t, relHumidity = h, absHumidity = ah,
          dewPointC = dp, steamPressure = sp,
          temperatureF = fadd A f1 (flit A 32),
          dewPointF = fadd A f2 (flit A 32)\<rparr>"
    by (rule Measurement_new_steps)
  have s: "temperatureC m = t" "dewPointC m = dp" "temperatureF m = fadd A f1 (flit A 32)"
    "dewPointF m = fadd A f2 (flit A 32)" by (simp_all add: m)
  show "temperatureC m = t" by (rule s(1))
  show "\<exists>f1. truediv A (fmul A t (flit A 9)) (flit A 5) = Inr f1
            \<and> temperatureF m = fadd A f1 (flit A 32)"
    using f1 s(3) by blast
  show "\<exists>z1 x e z2 l d k.
            truediv A (fmul A (flit A 7.45) t) (fadd A (flit A 235) t) = Inr z1
          \<and> fexp A (fmul A z1 (flit A 2.3025851)) = Inr x
          \<and> truediv A (fmul A (fmul A (flit A 6.1) x) h) (flit A 100) = Inr e
          \<and> truediv A e (flit A 6.1) = Inr z2
          \<and> math_log A z2 = Inr l
          \<and> truediv A (fmul A (flit A 235) (fmul A (flit A 0.434292289) l))
               (fsub A (flit A 7.45) (fmul A (flit A 0.434292289) l)) = Inr d
          \<and> int_float (fmul A d (flit A 10)) = Inr k
          \<and> truediv A (fint A k) (flit A 10) = Inr (dewPointC m)"
    using z1 x e z2 l d k dp unfolding s(2) by blast
  show "\<exists>f2. truediv A (fmul A (dewPointC m) (flit A 9)) (flit A 5) = Inr f2
            \<and> dewPointF m = fadd A f2 (flit A 32)"
    using f2 s(4) unfolding s(2) by blast
next
  assume "Measurement_init t' h' = Inr m'"
  then show "temperatureC m' = t'" "temperatureF m' = t' * 9 / 5 + 32"
    "dewPointF m' = dewPointC m' * 9 / 5 + 32"
    unfolding Measurement_init_def Let_def by (auto split: if_splits)
qed

text \<open>
  The theorem at \<open>t = 20\<close>, \<open>h = 100\<close> on the reals: 68 degrees Fahrenheit, and the dew
  point 19.9 gives 67.82; and in exact arithmetic at \<open>t = 0\<close>, \<open>h = 100\<close>.
\<close>

theorem fahrenheit_fields_witness:
  "(\<exists>m. Measurement_init 20 100 = Inr m \<and> temperatureC m = 20 \<and> temperatureF m = 68
     \<and> dewPointC m = 19.9 \<and> dewPointF m = 67.82)
   \<and> (\<exists>m. Measurement_new exact_arith (Finite 0) (Finite 100) = Inr m
        \<and> temperatureC m = Finite 0 \<and> temperatureF m = Finite 32 \<and> dewPointF m = Finite 32)"
proof -
  have d: "map_sum id dewPointC (Measurement_init 20 100) = Inr 19.9"
    by (simp add: Measurement_init_def z3_of_saturated z2_of_pos_iff not_le z1_of_def
        py_int_def Let_def)
  then obtain m where m: "Measurement_init 20 100 = Inr m" and dp: "dewPointC m = 19.9"
    by (cases "Measurement_init 20 100") auto
  obtain m' where m': "Measurement_new exact_arith (Finite 0) (Finite 100) = Inr m'"
    using new_0_100 by blast
  note f = fahrenheit_fields[of exact_arith "Finite 0" "Finite 100" m' 20 100 m]
  from f m have "temperatureC m = 20" "temperatureF m = 20 * 9 / 5 + 32"
    "dewPointF m = dewPointC m * 9 / 5 + 32" by simp_all
  with m dp have a: "\<exists>m. Measurement_init 20 100 = Inr m \<and> temperatureC m = 20 \<and> temperatureF m = 68
     \<and> dewPointC m = 19.9 \<and> dewPointF m = 67.82" by simp
  from f m' have "temperatureC m' = Finite 0" by simp
  with m' new_0_100 have b: "\<exists>m. Measurement_new exact_arith (Finite 0) (Finite 100) = Inr m
        \<and> temperatureC m = Finite 0 \<and> temperatureF m = Finite 32 \<and> dewPointF m = Finite 32"
    by auto
  from a b show ?thesis by blast
qed

text \<open>
  Claim C8. For every \<open>Measurement\<close>, \<open>to_dict\<close> has exactly the seven keys
  \<open>temperatureC\<close>, \<open>temperatureF\<close>, \<open>relHumidity\<close>, \<open>absHumidity\<close>, \<open>dewPointC\<close>,
  \<open>dewPointF\<close> and \<open>steamPressure\<close>, each once, and each key holds the field of its
  name.
\<close>

theorem to_dict_keys:
  "set (map fst (to_dict m)) =
     {''temperatureC'', ''temperatureF'', ''relHumidity'', ''absHumidity'', ''dewPointC'',
      ''dewPointF'', ''steamPressure''}
   \<and> distinct (map fst (to_dict m))
   \<and> map_of (to_dict m) ''temperatureC'' = Some (temperatureC m)
   \<and> map_of (to_dict m) ''temperatureF'' = Some (temperatureF m)
   \<and> map_of (to_dict m) ''relHumidity'' = Some (relHumidity m)
   \<and> map_of (to_dict m) ''absHumidity'' = Some (absHumidity m)
   \<and> map_of (to_dict m) ''dewPointC'' = Some (dewPointC m)
   \<and> map_of (to_dict m) ''dewPointF'' = Some (dewPointF m)
   \<and> map_of (to_dict m) ''steamPressure'' = Some (steamPressure m)"
  by (simp add: to_dict_def)

lemma Measurement_init_InrD:
  assumes "Measurement_init t h = Inr m"
  shows "absHumidity m = real_of_int (py_round ((216.7 * e_of t h) / (273.15 + t) * 10)) / 10"
    and "dewPointC m = real_of_int (py_int ((235 * z3_of t h) / (7.45 - z3_of t h) * 10)) / 10"
    and "steamPressure m = real_of_int (py_int (e_of t h * 10)) / 10"
  using assms unfolding Measurement_init_def Let_def
  by (auto split: if_splits)





lemma dew_upper:
  assumes "- 20 \<le> t" "t \<le> 50" "0 < h" "h \<le> 100"
  shows "(235 * z3_of t h) / (7.45 - z3_of t h) \<le> t + 0.0004"
    and "0 \<le> t \<Longrightarrow> (235 * z3_of t h) / (7.45 - z3_of t h) \<le> t"
proof -
  have t: "- 235 < t" "- 235 < t + 0.0004" using assms(1) by simp_all
  have "z3_of t h \<le> z1_of (t + 0.0004)"
    using z3_of_le_saturated[OF assms(3,4), of t] sat_upper[OF assms(1,2)] by linarith
  from dew_mono[OF this z1_of_less[OF t(2)]] show "(235 * z3_of t h) / (7.45 - z3_of t h) \<le> t + 0.0004"
    unfolding dew_of_z1[OF t(2)] .
  assume "0 \<le> t"
  then have "0 \<le> z1_of t" using t(1) by (simp add: z1_of_def)
  then have "0.434292289 * (z1_of t * 2.3025851) \<le> z1_of t" by simp
  then have "z3_of t h \<le> z1_of t" using z3_of_le_saturated[OF assms(3,4), of t] by linarith
  from dew_mono[OF this z1_of_less[OF t(1)]] show "(235 * z3_of t h) / (7.45 - z3_of t h) \<le> t"
    unfolding dew_of_z1[OF t(1)] .
qed

lemma dew_lower_saturated:
  assumes "- 20 \<le> t" "t \<le> 50"
  shows "t - 0.0004 \<le> (235 * z3_of t 100) / (7.45 - z3_of t 100)"
proof -
  have t: "- 235 < t" "- 235 < t - 0.0004" using assms(1) by simp_all
  have "z3_of t 100 < 7.45" by (rule z3_of_less[OF t(1)]) simp_all
  from dew_mono[OF _ this, of "z1_of (t - 0.0004)"] sat_lower[OF assms]
  show ?thesis unfolding dew_of_z1[OF t(2)] z3_of_saturated by simp
qed

text \<open>
  Claim C4, amended. For \<open>-20 \<le> t \<le> 50\<close> and \<open>0 < h \<le> 100\<close>, whenever the
  Measurement is built, \<open>dewPointC \<le> t\<close> holds when \<open>t\<close> is not negative; for a
  negative \<open>t\<close> the truncation toward zero moves the dew point up, and \<open>dewPointC\<close>
  stays below \<open>t + 0.1004\<close>. The Measurement is built for every \<open>h\<close> from \<open>1e-300\<close>.
\<close>

theorem dew_point_bound:
  assumes "- 20 \<le> t" and "t \<le> 50" and "0 < h" and "h \<le> 100"
  shows "(1 / 10 ^ 300 \<le> h \<longrightarrow> (\<exists>m. Measurement_init t h = Inr m))
    \<and> (\<forall>m. Measurement_init t h = Inr m \<longrightarrow>
          (0 \<le> t \<longrightarrow> dewPointC m \<le> t) \<and> dewPointC m < t + 0.1004)"
proof (intro conjI impI allI)
  have t: "- 235 < t" using assms(1) by simp
  note i = Measurement_init_normal[OF t assms(3,4)]
  then show "\<exists>m. Measurement_init t h = Inr m" by blast
  fix m
  assume m: "Measurement_init t h = Inr m"
  define d where "d = (235 * z3_of t h) / (7.45 - z3_of t h)"
  have dp: "dewPointC m = real_of_int (py_int (d * 10)) / 10"
    using Measurement_init_InrD(2)[OF m] by (simp add: d_def)
  have u: "d \<le> t + 0.0004" "0 \<le> t \<Longrightarrow> d \<le> t"
    unfolding d_def using dew_upper[OF assms] by simp_all
  show "dewPointC m < t + 0.1004"
    unfolding dp using py_int_less_add1[of "d * 10"] u(1) by simp
  assume p: "0 \<le> t"
  then have "d * 10 \<le> t * 10" "0 \<le> t * 10" using u(2) by simp_all
  then have "real_of_int (py_int (d * 10)) \<le> t * 10" by (rule py_int_le)
  then show "dewPointC m \<le> t" unfolding dp by simp
qed

text \<open>The theorem at \<open>t = 0\<close>, \<open>h = 100\<close>.\<close>

theorem dew_point_bound_witness:
  "(- 20 :: real) \<le> 0 \<and> (0::real) \<le> 50 \<and> (0::real) < 100
   \<and> (\<exists>m. Measurement_init 0 100 = Inr m \<and> dewPointC m \<le> 0 \<and> dewPointC m = 0)"
proof -
  have h: "(- 20 :: real) \<le> 0" "(0::real) \<le> 50" "(0::real) < 100" "(100::real) \<le> 100" by simp_all
  have "1 / 10 ^ 300 \<le> (100::real)" by simp
  with dew_point_bound[OF h] obtain m where m: "Measurement_init 0 100 = Inr m" by blast
  with dew_point_bound[OF h] have "dewPointC m \<le> 0" by blast
  with m show ?thesis by (auto simp: init_0_100)
qed

text \<open>
  Claim C4 as stated fails: at \<open>t = -20\<close>, \<open>h = 100\<close> the dew point before truncation
  is about \<open>-19.9999\<close>, and the integer cast of \<open>-199.999\<close> is \<open>-199\<close>, so
  \<open>dewPointC = -19.9\<close>, a tenth of a degree above the temperature.
\<close>

theorem dew_point_exceeds_counterexample:
  "map_sum id (\<lambda>m. (temperatureC m, dewPointC m)) (Measurement_init (- 20) 100) = Inr (- 20, - 19.9)"
  by (simp add: Measurement_init_def z3_of_saturated z2_of_pos_iff not_le z1_of_def py_int_def Let_def)

text \<open>
  Claim C6, amended. For \<open>-20 \<le> t \<le> 50\<close> and \<open>h = 100\<close> the construction returns
  and \<open>dewPointC\<close> differs from \<open>t\<close> by less than \<open>0.1004\<close>: the truncation grain
  and the drift of the two constants, whose product \<open>2.3025851 * 0.434292289\<close> is
  a little less than one.
\<close>

theorem saturated_dew_point:
  assumes "- 20 \<le> t" and "t \<le> 50"
  shows "\<exists>m. Measurement_init t 100 = Inr m \<and> \<bar>dewPointC m - t\<bar> < 0.1004"
proof -
  have t: "- 235 < t" using assms(1) by simp
  have i: "Measurement_init t 100 =
    Inr \<lparr>temperatureC = t, relHumidity = 100,
         absHumidity = real_of_int (py_round ((216.7 * e_of t 100) / (273.15 + t) * 10)) / 10,
         dewPointC = real_of_int (py_int ((235 * z3_of t 100) / (7.45 - z3_of t 100) * 10)) / 10,
         steamPressure = real_of_int (py_int (e_of t 100 * 10)) / 10,
         temperatureF = t * 9 / 5 + 32,
         dewPointF = real_of_int (py_int ((235 * z3_of t 100) / (7.45 - z3_of t 100) * 10)) / 10 * 9 / 5 + 32\<rparr>"
    by (rule Measurement_init_normal[OF t]) simp_all
  define d where "d = (235 * z3_of t 100) / (7.45 - z3_of t 100)"
  have u: "d \<le> t + 0.0004" unfolding d_def by (rule dew_upper(1)[OF assms]) simp_all
  have l: "t - 0.0004 \<le> d" unfolding d_def by (rule dew_lower_saturated[OF assms])
  have k1: "real_of_int (py_int (d * 10)) / 10 - t < 0.1004"
    using py_int_less_add1[of "d * 10"] u by simp
  have k2: "- (real_of_int (py_int (d * 10)) / 10 - t) < 0.1004"
    using py_int_greater_sub1[of "d * 10"] l by simp
  have "\<bar>real_of_int (py_int (d * 10)) / 10 - t\<bar> < 0.1004"
    using k1 k2 by (rule abs_less_iff[THEN iffD2, OF conjI])
  then show ?thesis unfolding i by (simp add: d_def)
qed

theorem saturated_dew_point_witness:
  "(- 20 :: real) \<le> 0 \<and> (0::real) \<le> 50
   \<and> (\<exists>m. Measurement_init 0 100 = Inr m \<and> \<bar>dewPointC m - 0\<bar> < 0.1004 \<and> dewPointC m = 0)"
proof -
  have h: "(- 20 :: real) \<le> 0" "(0::real) \<le> 50" by simp_all
  from saturated_dew_point[OF h] show ?thesis by (auto simp: init_0_100)
qed

text \<open>
  Claim C6 as stated fails: at \<open>t = 20.00005\<close>, \<open>h = 100\<close> the dew point before
  truncation is just below \<open>20\<close>, so \<open>dewPointC = 19.9\<close>, more than \<open>0.1\<close> away from
  the temperature.
\<close>

theorem saturated_dew_point_counterexample:
  "map_sum id (\<lambda>m. (dewPointC m, \<bar>dewPointC m - temperatureC m\<bar> \<le> 0.1)) (Measurement_init 20.00005 100)
     = Inr (19.9, False)"
  by (simp add: Measurement_init_def z3_of_saturated z2_of_pos_iff not_le z1_of_def py_int_def Let_def)

section \<open>The wait loop and the notification handler\<close>

lemma wait_loop_from:
  assumes "i \<le> 10" "\<forall>j<i. measurement (after_polls A polls s0 j) = None"
  shows "\<exists>n. wait_loop A polls (after_polls A polls s0 i) i = (after_polls A polls s0 n, n)
     \<and> i \<le> n \<and> n \<le> 10
     \<and> (\<forall>j<n. measurement (after_polls A polls s0 j) = None)
     \<and> (n < 10 \<longrightarrow> measurement (after_polls A polls s0 n) \<noteq> None)"
  using assms
proof (induction "10 - i" arbitrary: i)
  case 0
  then have "i = 10" by simp
  then show ?case using "0.prems" by (subst wait_loop.simps) auto
next
  case (Suc k)
  then have i: "i < 10" by simp
  show ?case
  proof (cases "measurement (after_polls A polls s0 i) = None")
    case True
    have a: "k = 10 - Suc i" using Suc.hyps(2) by simp
    have b: "\<forall>j<Suc i. measurement (after_polls A polls s0 j) = None"
      using Suc.prems(2) True by (auto simp: less_Suc_eq)
    from Suc.hyps(1)[OF a _ b] i obtain n where n:
      "wait_loop A polls (after_polls A polls s0 (Suc i)) (Suc i) = (after_polls A polls s0 n, n)"
      "Suc i \<le> n" "n \<le> 10" "\<forall>j<n. measurement (after_polls A polls s0 j) = None"
      "n < 10 \<longrightarrow> measurement (after_polls A polls s0 n) \<noteq> None"
      by auto
    have "wait_loop A polls (after_polls A polls s0 i) i
        = wait_loop A polls (after_polls A polls s0 (Suc i)) (Suc i)"
      using True i by (subst wait_loop.simps) simp
    with n show ?thesis by (intro exI[of _ n]) auto
  next
    case False
    then have "wait_loop A polls (after_polls A polls s0 i) i = (after_polls A polls s0 i, i)"
      by (subst wait_loop.simps) auto
    with False Suc.prems i show ?thesis by (intro exI[of _ i]) auto
  qed
qed

lemma wait_loop_0:
  "\<exists>n. wait_loop A polls self 0 = (after_polls A polls self n, n) \<and> n \<le> 10
     \<and> (\<forall>j<n. measurement (after_polls A polls self j) = None)
     \<and> (n < 10 \<longrightarrow> measurement (after_polls A polls self n) \<noteq> None)"
  using wait_loop_from[of 0 A polls self] by auto

lemma requestMeasurement_eq:
  "requestMeasurement A sched self =
     (let self3 = deliver_all A (fst (wait_loop A (during_poll sched)
                      (deliver_all A self (before_loop sched)) 0)) (after_loop sched)
      in (measurement self3, self3))"
  by (simp add: requestMeasurement_def Let_def split: prod.splits)

lemma deliver_all_keeps_None:
  assumes "\<forall>b\<in>set bs. \<forall>s. measurement s = None \<longrightarrow> measurement (deliver A s b) = None"
    and "measurement self = None"
  shows "measurement (deliver_all A self bs) = None"
  using assms unfolding deliver_all_def
  by (induction bs arbitrary: self) simp_all

lemma after_polls_keeps_None:
  assumes "\<forall>i<10. \<forall>b\<in>set (polls i). \<forall>s. measurement s = None \<longrightarrow> measurement (deliver A s b) = None"
    and "measurement self = None" and "n \<le> 10"
  shows "measurement (after_polls A polls self n) = None"
  using assms(3)
proof (induction n)
  case 0
  then show ?case using assms(2) by simp
next
  case (Suc n)
  then have n: "n < 10" and ih: "measurement (after_polls A polls self n) = None" by simp_all
  from assms(1) n have "\<forall>b\<in>set (polls n). \<forall>s. measurement s = None \<longrightarrow> measurement (deliver A s b) = None"
    by simp
  from deliver_all_keeps_None[OF this ih] show ?case by simp
qed

text \<open>
  Claim C7, amended. In whatever float arithmetic, the wait loop is a total function:
  it returns after \<open>n \<le> 10\<close> sleeps, with the object as it is after \<open>n\<close> polls. No
  measurement was stored before any of the polls \<open>0\<close> to \<open>n - 1\<close>, and when the loop
  leaves before the tenth sleep a measurement is stored: the loop leaves at the first
  poll that finds one, and gives up after ten. \<open>requestMeasurement\<close> returns the field
  as it is after \<^verbatim>\<open>stop_notify\<close>. When the object holds no measurement before the call
  and no payload of the call, one that arrives while \<^verbatim>\<open>stop_notify\<close> is awaited
  included, makes the handler store one, the loop sleeps ten times and the call
  returns \<^verbatim>\<open>None\<close>. The length of a sleep is not part of the model.
\<close>

theorem wait_loop_bounded:
  "\<exists>n. wait_loop A (during_poll sched) (deliver_all A self (before_loop sched)) 0
        = (after_polls A (during_poll sched) (deliver_all A self (before_loop sched)) n, n)
     \<and> n \<le> 10
     \<and> (\<forall>j<n. measurement (after_polls A (during_poll sched)
                   (deliver_all A self (before_loop sched)) j) = None)
     \<and> (n < 10 \<longrightarrow>
          measurement (after_polls A (during_poll sched)
            (deliver_all A self (before_loop sched)) n) \<noteq> None)
     \<and> fst (requestMeasurement A sched self)
        = measurement (deliver_all A (after_polls A (during_poll sched)
            (deliver_all A self (before_loop sched)) n) (after_loop sched))
     \<and> (measurement self = None
          \<and> (\<forall>b\<in>payloads sched. \<forall>s. measurement s = None \<longrightarrow> measurement (deliver A s b) = None)
        \<longrightarrow> n = 10 \<and> fst (requestMeasurement A sched self) = None)"
proof -
  define s1 where "s1 = deliver_all A self (before_loop sched)"
  from wait_loop_0[of A "during_poll sched" s1]
  obtain n where n: "wait_loop A (during_poll sched) s1 0 = (after_polls A (during_poll sched) s1 n, n)"
     "n \<le> 10"
     "\<forall>j<n. measurement (after_polls A (during_poll sched) s1 j) = None"
     "n < 10 \<longrightarrow> measurement (after_polls A (during_poll sched) s1 n) \<noteq> None"
    by blast
  have r: "fst (requestMeasurement A sched self)
        = measurement (deliver_all A (after_polls A (during_poll sched) s1 n) (after_loop sched))"
    by (simp add: requestMeasurement_eq n(1)[unfolded s1_def] s1_def Let_def)
  have q: "n = 10 \<and> fst (requestMeasurement A sched self) = None"
    if f: "measurement self = None"
      and p: "\<forall>b\<in>payloads sched. \<forall>s. measurement s = None \<longrightarrow> measurement (deliver A s b) = None"
  proof -
    have "measurement s1 = None"
      unfolding s1_def using p f by (intro deliver_all_keeps_None) (auto simp: payloads_def)
    moreover have "\<forall>i<10. \<forall>b\<in>set (during_poll sched i). \<forall>s. measurement s = None \<longrightarrow>
        measurement (deliver A s b) = None"
      using p by (auto simp: payloads_def)
    ultimately have a: "measurement (after_polls A (during_poll sched) s1 n) = None"
      using n(2) by (intro after_polls_keeps_None) auto
    with n(2,4) have "n = 10" by auto
    moreover have "measurement (deliver_all A (after_polls A (during_poll sched) s1 n)
        (after_loop sched)) = None"
      using p a by (intro deliver_all_keeps_None) (auto simp: payloads_def)
    ultimately show ?thesis using r by simp
  qed
  show ?thesis
  proof (intro exI[of _ n] conjI impI)
    show "wait_loop A (during_poll sched) (deliver_all A self (before_loop sched)) 0
        = (after_polls A (during_poll sched) (deliver_all A self (before_loop sched)) n, n)"
      using n(1) unfolding s1_def .
    show "n \<le> 10" by (rule n(2))
    show "\<forall>j<n. measurement (after_polls A (during_poll sched)
                   (deliver_all A self (before_loop sched)) j) = None"
      using n(3) unfolding s1_def .
    show "measurement (after_polls A (during_poll sched)
            (deliver_all A self (before_loop sched)) n) \<noteq> None" if "n < 10"
      using n(4) that unfolding s1_def by simp
    show "fst (requestMeasurement A sched self)
        = measurement (deliver_all A (after_polls A (during_poll sched)
            (deliver_all A self (before_loop sched)) n) (after_loop sched))"
      using r unfolding s1_def .
    assume h: "measurement self = None
          \<and> (\<forall>b\<in>payloads sched. \<forall>s. measurement s = None \<longrightarrow> measurement (deliver A s b) = None)"
    from h q show "n = 10" by simp
    from h q show "fst (requestMeasurement A sched self) = None" by simp
  qed
qed

lemma after_polls_quiet: "after_polls A (\<lambda>i. []) self n = self"
  by (induction n) (simp_all add: deliver_all_def)

lemma decode_ascii_sample: "decode ''T=0 H=100'' = Inr ''T=0 H=100''"
  by (simp add: decode_def between_def)

lemma re_match_sample: "re_match ''T=0 H=100'' = Some (''0'', ''100'')"
  by (simp add: re_match_def strip_prefix_def in_class_def Let_def)

lemma py_float_sample:
  "py_float exact_arith ''0'' = Inr (Finite 0)" "py_float exact_arith ''100'' = Inr (Finite 100)"
  by (simp_all add: py_float_def is_digit_def decimal_def exact_arith_def Let_def)

lemma deliver_sample:
  "deliver exact_arith self ''T=0 H=100'' =
     self\<lparr>measurement := Some \<lparr>temperatureC = Finite 0, relHumidity = Finite 100,
       absHumidity = Finite 4.8, dewPointC = Finite 0, steamPressure = Finite 6.1,
       temperatureF = Finite 32, dewPointF = Finite 32\<rparr>\<rparr>"
  by (simp add: deliver_def notification_handler_def decode_ascii_sample re_match_sample
      py_float_sample new_0_100)

text \<open>
  The theorem in exact arithmetic on a sensor that sends nothing: ten sleeps and
  \<^verbatim>\<open>None\<close>. When \<^verbatim>\<open>T=0 H=100\<close> arrives during the third sleep the loop leaves
  with \<open>i = 3\<close>.
\<close>

theorem wait_loop_bounded_witness:
  "wait_loop exact_arith (\<lambda>i. []) (XiaomiThermometerHygrometer_init ''4c:65:a8:d0:00:01'') 0
     = (XiaomiThermometerHygrometer_init ''4c:65:a8:d0:00:01'', 10)
   \<and> fst (requestMeasurement exact_arith
        \<lparr>before_loop = [], during_poll = (\<lambda>i. []), after_loop = []\<rparr>
        (XiaomiThermometerHygrometer_init ''4c:65:a8:d0:00:01'')) = None
   \<and> snd (wait_loop exact_arith (\<lambda>i. if i = 2 then [''T=0 H=100''] else [])
        (XiaomiThermometerHygrometer_init ''4c:65:a8:d0:00:01'') 0) = 3"
proof -
  define self where "self = XiaomiThermometerHygrometer_init ''4c:65:a8:d0:00:01''"
  define sched where
    "sched = \<lparr>before_loop = [], during_poll = (\<lambda>i::nat. [] :: string list), after_loop = []\<rparr>"
  have m: "measurement self = None" by (simp add: self_def XiaomiThermometerHygrometer_init_def)
  have p: "\<forall>b\<in>payloads sched. \<forall>s. measurement s = None \<longrightarrow> measurement (deliver exact_arith s b) = None"
    by (simp add: payloads_def sched_def)
  from wait_loop_bounded[of exact_arith sched self] m p obtain n where n:
    "wait_loop exact_arith (\<lambda>i. []) self 0 = (self, n)" "n = 10"
    "fst (requestMeasurement exact_arith sched self) = None"
    by (auto simp: sched_def after_polls_quiet deliver_all_def)
  then have a: "wait_loop exact_arith (\<lambda>i. []) self 0 = (self, 10)" by simp
  have b: "snd (wait_loop exact_arith (\<lambda>i. if i = 2 then [''T=0 H=100''] else []) self 0) = 3"
    by (simp add: wait_loop.simps deliver_all_def deliver_sample m self_def
        XiaomiThermometerHygrometer_init_def)
  show ?thesis using a n(3) b unfolding self_def sched_def by simp
qed

text \<open>
  Claim C7 as stated fails: on a fresh object, with nothing sent before or during the
  ten polls, the loop sleeps ten times and no measurement is stored when it gives up;
  \<^verbatim>\<open>T=0 H=100\<close> arrives while \<^verbatim>\<open>stop_notify\<close> is awaited, and the call returns a
  Measurement and not \<^verbatim>\<open>None\<close>.
\<close>

theorem late_notification_counterexample:
  "wait_loop exact_arith (\<lambda>i. []) (XiaomiThermometerHygrometer_init ''4c:65:a8:d0:00:01'') 0
     = (XiaomiThermometerHygrometer_init ''4c:65:a8:d0:00:01'', 10)
   \<and> measurement (XiaomiThermometerHygrometer_init ''4c:65:a8:d0:00:01'') = None
   \<and> fst (requestMeasurement exact_arith
        \<lparr>before_loop = [], during_poll = (\<lambda>i. []), after_loop = [''T=0 H=100'']\<rparr>
        (XiaomiThermometerHygrometer_init ''4c:65:a8:d0:00:01''))
      = Some \<lparr>temperatureC = Finite 0, relHumidity = Finite 100,
          absHumidity = Finite 4.8, dewPointC = Finite 0, steamPressure = Finite 6.1,
          temperatureF = Finite 32, dewPointF = Finite 32\<rparr>"
proof -
  define self where "self = XiaomiThermometerHygrometer_init ''4c:65:a8:d0:00:01''"
  have m: "measurement self = None" by (simp add: self_def XiaomiThermometerHygrometer_init_def)
  from wait_loop_0[of exact_arith "\<lambda>i. []" self] m obtain n where
    "wait_loop exact_arith (\<lambda>i. []) self 0 = (self, n)" "n \<le> 10" "n < 10 \<longrightarrow> measurement self \<noteq> None"
    by (auto simp: after_polls_quiet)
  with m have a: "wait_loop exact_arith (\<lambda>i. []) self 0 = (self, 10)" by auto
  then have "fst (requestMeasurement exact_arith
        \<lparr>before_loop = [], during_poll = (\<lambda>i. []), after_loop = [''T=0 H=100'']\<rparr> self)
      = Some \<lparr>temperatureC = Finite 0, relHumidity = Finite 100,
          absHumidity = Finite 4.8, dewPointC = Finite 0, steamPressure = Finite 6.1,
          temperatureF = Finite 32, dewPointF = Finite 32\<rparr>"
    by (simp add: requestMeasurement_def deliver_all_def deliver_sample)
  with a m show ?thesis unfolding self_def by simp
qed








section \<open>The scan\<close>

lemma callback_seen: "address d \<in> set (found_devices s) \<Longrightarrow> callback d s = s"
  by (simp add: callback_def)

lemma callback_found:
  "address d \<notin> set (found_devices s) \<Longrightarrow> found_devices (callback d s) = found_devices s @ [address d]"
  by (simp add: callback_def Let_def)

lemma callback_stdout:
  "stdout (callback d s) =
     (if address d \<notin> set (found_devices s) \<and> is_vendor d then stdout s @ [report_line d] else stdout s)"
  by (simp add: callback_def Let_def is_vendor_def report_line_def)

lemma foldl_callback:
  "found_devices (foldl (\<lambda>s d. callback d s) s ads)
      = found_devices s @ map address (first_seen (found_devices s) ads)
   \<and> stdout (foldl (\<lambda>s d. callback d s) s ads)
      = stdout s @ map report_line (filter is_vendor (first_seen (found_devices s) ads))"
proof (induction ads arbitrary: s)
  case Nil
  then show ?case by simp
next
  case (Cons d ds)
  show ?case
  proof (cases "address d \<in> set (found_devices s)")
    case True
    then show ?thesis using Cons[of s] by (simp add: callback_seen)
  next
    case False
    then show ?thesis using Cons[of "callback d s"]
      by (simp add: callback_found callback_stdout)
  qed
qed

lemma first_seen_distinct:
  "distinct seen \<Longrightarrow> distinct (seen @ map address (first_seen seen ads))"
proof (induction ads arbitrary: seen)
  case Nil
  then show ?case by simp
next
  case (Cons d ds)
  show ?case
  proof (cases "address d \<in> set seen")
    case True
    then show ?thesis using Cons by simp
  next
    case False
    then have "distinct (seen @ [address d])" using Cons.prems by simp
    from Cons.IH[OF this] show ?thesis using False by simp
  qed
qed

lemma first_seen_set:
  "set seen \<union> address ` set (first_seen seen ads) = set seen \<union> address ` set ads"
proof (induction ads arbitrary: seen)
  case Nil
  then show ?case by simp
next
  case (Cons d ds)
  show ?case
  proof (cases "address d \<in> set seen")
    case True
    then show ?thesis using Cons.IH[of seen] by auto
  next
    case False
    then show ?thesis using Cons.IH[of "seen @ [address d]"] by auto
  qed
qed

text \<open>
  Claim C9. The callback prints a line on the standard output only for a device whose
  name is neither \<^verbatim>\<open>None\<close> nor empty, whose address in lower case starts with
  \<^verbatim>\<open>4c:65:a8:\<close> and whose address was not seen before; the line is the address, four
  blanks and the name. Every new address is appended to \<open>found_devices\<close>, reported or
  not. A device whose address was seen changes nothing. Over a whole scan the list
  holds each address once, and the standard output holds one line for the first
  advertisement of each address that passes the test, in order.
\<close>

theorem scan_reports:
  "(stdout (callback d s) \<noteq> stdout s \<longrightarrow>
      name d \<noteq> None \<and> name d \<noteq> Some [] \<and> startswith (lower (address d)) ''4c:65:a8:''
      \<and> address d \<notin> set (found_devices s)
      \<and> stdout (callback d s) = stdout s @ [address d @ ''    '' @ the (name d)])
   \<and> (address d \<notin> set (found_devices s) \<longrightarrow>
        found_devices (callback d s) = found_devices s @ [address d])
   \<and> (address d \<in> set (found_devices s) \<longrightarrow> callback d s = s)
   \<and> distinct (found_devices (scan ads))
   \<and> set (found_devices (scan ads)) = address ` set ads
   \<and> found_devices (scan ads) = map address (first_seen [] ads)
   \<and> stdout (scan ads) = map report_line (filter is_vendor (first_seen [] ads))"
proof -
  have 1: "stdout (callback d s) \<noteq> stdout s \<longrightarrow>
      name d \<noteq> None \<and> name d \<noteq> Some [] \<and> startswith (lower (address d)) ''4c:65:a8:''
      \<and> address d \<notin> set (found_devices s)
      \<and> stdout (callback d s) = stdout s @ [address d @ ''    '' @ the (name d)]"
    by (auto simp: callback_stdout is_vendor_def truthy_def report_line_def name_text_def
        split: option.splits if_splits)
  have 2: "found_devices (scan ads) = map address (first_seen [] ads)"
    "stdout (scan ads) = map report_line (filter is_vendor (first_seen [] ads))"
    using foldl_callback[of "\<lparr>found_devices = [], stdout = [], stderr = []\<rparr>" ads]
    by (simp_all add: scan_def)
  have 3: "distinct (found_devices (scan ads))"
    using first_seen_distinct[of "[]" ads] by (simp add: 2)
  have 4: "set (found_devices (scan ads)) = address ` set ads"
    using first_seen_set[of "[]" ads] by (simp add: 2)
  show ?thesis using 1 2 3 4 by (simp add: callback_found callback_seen)
qed

lemma scan_sample: "scan [\<lparr>address = ''4C:65:A8:D0:00:01'', name = Some ''MJ_HT_V1''\<rparr>,
             \<lparr>address = ''AA:BB:CC:00:00:02'', name = Some ''TV''\<rparr>,
             \<lparr>address = ''AA:BB:CC:00:00:03'', name = None\<rparr>,
             \<lparr>address = ''4C:65:A8:D0:00:04'', name = Some ''''\<rparr>,
             \<lparr>address = ''4C:65:A8:D0:00:01'', name = Some ''MJ_HT_V1''\<rparr>]
   = \<lparr>found_devices = [''4C:65:A8:D0:00:01'', ''AA:BB:CC:00:00:02'', ''AA:BB:CC:00:00:03'', ''4C:65:A8:D0:00:04''],
      stdout = [''4C:65:A8:D0:00:01    MJ_HT_V1''],
      stderr = ['' 2 bluetooth devices seen'']\<rparr>"
  by (simp add: scan_def callback_def truthy_def startswith_def lower_def lower_char_def name_text_def Let_def show_nat.simps)

text \<open>
  The theorem on a scan of five advertisements: a vendor device, a named device of
  another vendor, a device without a name, a vendor device with an empty name, and the
  first device again. One line is printed, four addresses are counted, and the second
  advertisement of the first device changes nothing.
\<close>

theorem scan_reports_witness:
  "stdout (scan [\<lparr>address = ''4C:65:A8:D0:00:01'', name = Some ''MJ_HT_V1''\<rparr>,
             \<lparr>address = ''AA:BB:CC:00:00:02'', name = Some ''TV''\<rparr>,
             \<lparr>address = ''AA:BB:CC:00:00:03'', name = None\<rparr>,
             \<lparr>address = ''4C:65:A8:D0:00:04'', name = Some ''''\<rparr>,
             \<lparr>address = ''4C:65:A8:D0:00:01'', name = Some ''MJ_HT_V1''\<rparr>])
     = [''4C:65:A8:D0:00:01    MJ_HT_V1'']
   \<and> length (found_devices (scan [\<lparr>address = ''4C:65:A8:D0:00:01'', name = Some ''MJ_HT_V1''\<rparr>,
             \<lparr>address = ''AA:BB:CC:00:00:02'', name = Some ''TV''\<rparr>,
             \<lparr>address = ''AA:BB:CC:00:00:03'', name = None\<rparr>,
             \<lparr>address = ''4C:65:A8:D0:00:04'', name = Some ''''\<rparr>,
             \<lparr>address = ''4C:65:A8:D0:00:01'', name = Some ''MJ_HT_V1''\<rparr>])) = 4
   \<and> callback \<lparr>address = ''4C:65:A8:D0:00:01'', name = Some ''MJ_HT_V1''\<rparr>
        (scan [\<lparr>address = ''4C:65:A8:D0:00:01'', name = Some ''MJ_HT_V1''\<rparr>,
             \<lparr>address = ''AA:BB:CC:00:00:02'', name = Some ''TV''\<rparr>,
             \<lparr>address = ''AA:BB:CC:00:00:03'', name = None\<rparr>,
             \<lparr>address = ''4C:65:A8:D0:00:04'', name = Some ''''\<rparr>,
             \<lparr>address = ''4C:65:A8:D0:00:01'', name = Some ''MJ_HT_V1''\<rparr>])
     = \<lparr>found_devices = [''4C:65:A8:D0:00:01'', ''AA:BB:CC:00:00:02'', ''AA:BB:CC:00:00:03'',
           ''4C:65:A8:D0:00:04''],
        stdout = [''4C:65:A8:D0:00:01    MJ_HT_V1''],
        stderr = ['' 2 bluetooth devices seen'']\<rparr>"
proof -
  define d where "d = \<lparr>address = ''4C:65:A8:D0:00:01'', name = Some ''MJ_HT_V1''\<rparr>"
  define ads where "ads = [\<lparr>address = ''4C:65:A8:D0:00:01'', name = Some ''MJ_HT_V1''\<rparr>,
             \<lparr>address = ''AA:BB:CC:00:00:02'', name = Some ''TV''\<rparr>,
             \<lparr>address = ''AA:BB:CC:00:00:03'', name = None\<rparr>,
             \<lparr>address = ''4C:65:A8:D0:00:04'', name = Some ''''\<rparr>,
             \<lparr>address = ''4C:65:A8:D0:00:01'', name = Some ''MJ_HT_V1''\<rparr>]"
  note s = scan_sample[folded ads_def]
  have "address d \<in> set (found_devices (scan ads))" by (simp add: s d_def)
  with scan_reports[of d "scan ads" ads] have c: "callback d (scan ads) = scan ads" by blast
  show ?thesis using c[unfolded d_def ads_def] by (simp add: scan_sample)
qed

end
